theory Spec2Isabelle
  imports Main "HOL-Library.Word"
begin

unbundle bit_operations_syntax

section \<open>Go library functions the gateway relies on\<close>

text \<open>
  Go strings and byte slices are byte sequences: both are modelled as \<open>string\<close>.
  An \<open>error\<close> is a value; the constructors keep apart the errors the gateway
  itself creates and the ones a collaborator hands back.
\<close>

type_synonym bytes = string
type_synonym time = nat

datatype error =
    Err string
  | ErrAuthFailed
  | InvalidRepoName
  | SignatureCheckFailed
  | FailedConverting string error
  | FailedNegotiate error

text \<open>
  \<open>strings.Split s sep\<close> for a one-byte separator: the standard library looks for the
  next separator, cuts the segment before it, and goes on with the rest; the remainder
  is the last segment. The result therefore always has at least one segment.
\<close>

function strings_Split :: "string \<Rightarrow> char \<Rightarrow> string list" where
  "strings_Split s sep =
     (case dropWhile (\<lambda>c. c \<noteq> sep) s of
        [] \<Rightarrow> [s]
      | _ # rest \<Rightarrow> takeWhile (\<lambda>c. c \<noteq> sep) s # strings_Split rest sep)"
  by pat_completeness auto
termination
proof (relation "measure (\<lambda>(s, sep). length s)")
  show "wf (measure (\<lambda>(s, sep). length s))" by simp
next
  fix s :: string and sep x rest
  assume "dropWhile (\<lambda>c. c \<noteq> sep) s = x # rest"
  then have "length (x # rest) \<le> length s"
    by (metis length_dropWhile_le)
  then show "((rest, sep), (s, sep)) \<in> measure (\<lambda>(s, sep). length s)" by simp
qed

declare strings_Split.simps [simp del]

text \<open>
  \<open>subtle.ConstantTimeCompare\<close>: unequal lengths answer 0 at once; otherwise every
  byte pair is XORed into an accumulator, with no exit before the end, and the
  accumulator is compared with zero by \<open>ConstantTimeByteEq\<close>.
\<close>

definition byte_of :: "char \<Rightarrow> 8 word" where
  "byte_of c = of_nat (of_char c)"

fun ctc_loop :: "8 word \<Rightarrow> 8 word list \<Rightarrow> 8 word list \<Rightarrow> 8 word" where
  "ctc_loop v (a # as) (b # bs) = ctc_loop (v OR (a XOR b)) as bs"
| "ctc_loop v _ _ = v"

definition ConstantTimeByteEq :: "8 word \<Rightarrow> 8 word \<Rightarrow> int" where
  "ConstantTimeByteEq x y = uint (drop_bit 31 ((ucast (x XOR y) :: 32 word) - 1))"

definition ConstantTimeCompare :: "8 word list \<Rightarrow> 8 word list \<Rightarrow> int" where
  "ConstantTimeCompare x y =
     (if length x \<noteq> length y then 0 else ConstantTimeByteEq (ctc_loop 0 x y) 0)"

text \<open>
  The same comparison with its work counted: the second component is the number of
  byte pairs the loop has combined. The loop has no exit other than the end of the
  slices, and \<open>ConstantTimeByteEq\<close> is straight-line arithmetic.
\<close>

fun ctc_loop_steps :: "8 word \<Rightarrow> nat \<Rightarrow> 8 word list \<Rightarrow> 8 word list \<Rightarrow> 8 word \<times> nat" where
  "ctc_loop_steps v n (a # as) (b # bs) = ctc_loop_steps (v OR (a XOR b)) (Suc n) as bs"
| "ctc_loop_steps v n _ _ = (v, n)"

definition ConstantTimeCompare_steps :: "8 word list \<Rightarrow> 8 word list \<Rightarrow> int \<times> nat" where
  "ConstantTimeCompare_steps x y =
     (if length x \<noteq> length y then (0, 0)
      else (case ctc_loop_steps 0 0 x y of (v, n) \<Rightarrow> (ConstantTimeByteEq v 0, n)))"

section \<open>Data of the gateway\<close>

record Revision =
  Commit :: string
  Ref :: string

record Github =
  BaseURL :: string
  UploadURL :: string

record Project =
  ID :: string
  SharedSecret :: string
  Github :: Github

record Build =
  ProjectID :: string
  Type :: string
  Provider :: string
  Revision :: Revision
  Payload :: bytes

text \<open>
  What the handlers do to the outside world, in the order they do it: calls of the
  build store, calls of the remote platform, and responses written with \<open>c.JSON\<close>.
\<close>

datatype effect =
    StoreGetProject string
  | StoreCreateBuild Build
  | RemoteCreateInstallationToken int
  | RemotePullRequestsGet string string int
  | Respond nat string

fun is_store_op :: "effect \<Rightarrow> bool" where
  "is_store_op (StoreGetProject _) = True"
| "is_store_op (StoreCreateBuild _) = True"
| "is_store_op _ = False"

fun is_remote_call :: "effect \<Rightarrow> bool" where
  "is_remote_call (RemoteCreateInstallationToken _) = True"
| "is_remote_call (RemotePullRequestsGet _ _ _) = True"
| "is_remote_call _ = False"

fun is_build :: "effect \<Rightarrow> bool" where
  "is_build (StoreCreateBuild _) = True"
| "is_build _ = False"

fun is_response :: "effect \<Rightarrow> bool" where
  "is_response (Respond _ _) = True"
| "is_response _ = False"

datatype 'a result = Returned 'a | Panicked

subsection \<open>Webhook side\<close>

record GithubOpts =
  AppID :: int
  DefaultSharedSecret :: string
  EmittedEvents :: "string list"

record githubHook =
  opts :: GithubOpts
  allowedAuthors :: "string list"
  key :: bytes

text \<open>
  The fields of \<open>github.IssueCommentEvent\<close> the handler reads, each through its
  nil-safe getter: \<open>GetAction\<close>, \<open>Repo.GetFullName\<close>, whether
  \<open>Issue.GetPullRequestLinks\<close> is non-nil, \<open>Issue.GetNumber\<close>,
  \<open>Comment.GetAuthorAssociation\<close> and \<open>Installation.GetID\<close>.
\<close>

record IssueCommentEvent =
  Action :: string
  RepoFullName :: string
  PullRequestLinks :: bool
  IssueNumber :: int
  AuthorAssociation :: string
  InstallationID :: int

datatype parsed = IssueComment IssueCommentEvent | OtherEvent

record PullRequest =
  HeadSHA :: string
  Number :: int

record request =
  XGitHubEvent :: string
  XHubSignature :: string
  Body :: "error + bytes"

text \<open>
  \<open>webhook.Payload\<close>: the fields set by the composite literal in
  \<open>handleIssueCommentEvent\<close>; \<open>whBody\<close> is the re-parsed request body.
\<close>

record whPayload =
  whBody :: bytes
  whAppID :: int
  whInstID :: int
  whType :: string
  whToken :: string
  whTokenExpires :: time
  whCommit :: string
  whBranch :: string

subsection \<open>Custom resource side\<close>

record Object =
  Kind :: string
  Annotations :: "string \<rightharpoonup> string"
  DeletionTimestamp :: "time option"
  Phase :: string

record State =
  Object :: Object

record Handler =
  brigadeProject :: string
  eventTypeActionApply :: string
  eventTypeActionDestroy :: string
  eventTypeActionPlan :: string
  defaultBranch :: string
  hkey :: bytes
  appID :: int

record Mapping =
  MappingGroup :: string
  MappingVersion :: string
  MappingKind :: string
  BrigadeProject :: string

record crPayload =
  pType :: string
  pToken :: string
  pTokenExpires :: time
  pBody :: "Object option"
  pAppID :: int
  pInstID :: int
  pCommit :: string
  pBranch :: string
  pOwner :: string
  pRepo :: string
  pPull :: string
  pPullURL :: string

subsection \<open>External collaborators\<close>

text \<open>
  Everything outside the repository is a parameter: the build store, the remote
  platform, the JSON and number conversions of the standard library, the state
  packing of the reconciliation runtime, and the helpers \<open>SHA1HMAC\<close> and
  \<open>JWT\<close> of the webhook package, whose results are taken as given.
  \<open>PullRequestsGet\<close> answers an error, or a pull request together with
  the status code of the response.
\<close>

record env =
  GetProject :: "string \<Rightarrow> error + Project"
  CreateBuild :: "Build \<Rightarrow> error option"
  ParseWebHook :: "string \<Rightarrow> bytes \<Rightarrow> error + parsed"
  SHA1HMAC :: "bytes \<Rightarrow> bytes \<Rightarrow> string"
  JWT :: "string \<Rightarrow> bytes \<Rightarrow> error + string"
  Itoa :: "int \<Rightarrow> string"
  Atoi :: "string \<Rightarrow> error + int"
  ToLower :: "string \<Rightarrow> string"
  NewEnterpriseClient :: "string \<Rightarrow> string \<Rightarrow> error option"
  CreateInstallationToken :: "string \<Rightarrow> Github \<Rightarrow> int \<Rightarrow> error + string \<times> time"
  PullRequestsGet :: "string \<Rightarrow> Github \<Rightarrow> string \<Rightarrow> string \<Rightarrow> int \<Rightarrow> error + PullRequest \<times> nat"
  UnmarshalBody :: "bytes \<Rightarrow> error option"
  MarshalWhPayload :: "whPayload \<Rightarrow> error + bytes"
  MarshalCrPayload :: "crPayload \<Rightarrow> error + bytes"
  MarshalObject :: "Object \<Rightarrow> error option"
  Unpack :: "State \<Rightarrow> error option"
  Pack :: "State \<Rightarrow> error option"

section \<open>The webhook handler\<close>

subsection \<open>Signature validation and the emission filter\<close>

definition validateSignature :: "(bytes \<Rightarrow> bytes \<Rightarrow> string) \<Rightarrow> string \<Rightarrow> string \<Rightarrow> bytes \<Rightarrow> error option" where
  "validateSignature hmac signature secretKey payload =
     (let sum = hmac secretKey payload
      in if ConstantTimeCompare (map byte_of sum) (map byte_of signature) \<noteq> 1
         then Some SignatureCheckFailed
         else None)"

text \<open>\<open>validateSignature\<close> with the work of its comparison counted.\<close>

definition validateSignature_steps :: "(bytes \<Rightarrow> bytes \<Rightarrow> string) \<Rightarrow> string \<Rightarrow> string \<Rightarrow> bytes \<Rightarrow> error option \<times> nat" where
  "validateSignature_steps hmac signature secretKey payload =
     (let sum = hmac secretKey payload
      in case ConstantTimeCompare_steps (map byte_of sum) (map byte_of signature) of
           (r, n) \<Rightarrow> (if r \<noteq> 1 then Some SignatureCheckFailed else None, n))"

fun isAllowedAuthor_loop :: "string list \<Rightarrow> string \<Rightarrow> bool" where
  "isAllowedAuthor_loop [] author = False"
| "isAllowedAuthor_loop (a # as) author =
     (if a = author then True else isAllowedAuthor_loop as author)"

definition isAllowedAuthor :: "githubHook \<Rightarrow> string \<Rightarrow> bool" where
  "isAllowedAuthor s author = isAllowedAuthor_loop (allowedAuthors s) author"

fun shouldEmit_loop :: "string list \<Rightarrow> string \<Rightarrow> string \<Rightarrow> bool" where
  "shouldEmit_loop [] event action = False"
| "shouldEmit_loop (e # es) event action =
     (if e = ''*'' \<or> e = event \<or> e = event @ '':'' @ action then True
      else shouldEmit_loop es event action)"

text \<open>
  \<open>eventAction[0]\<close> is read without a check; the split never returns an empty list
  (lemma \<open>Split_not_Nil\<close> below), so the first branch of the case is never taken.
\<close>

definition shouldEmit :: "githubHook \<Rightarrow> string \<Rightarrow> bool" where
  "shouldEmit s eventType =
     (case strings_Split eventType (CHR '':'') of
        [] \<Rightarrow> False
      | event # rest \<Rightarrow>
          shouldEmit_loop (EmittedEvents (opts s)) event
            (case rest of [] \<Rightarrow> [] | action # _ \<Rightarrow> action))"

definition build :: "env \<Rightarrow> githubHook \<Rightarrow> string \<Rightarrow> Revision \<Rightarrow> bytes \<Rightarrow> Project \<Rightarrow> error option \<times> effect list" where
  "build env s eventType revn payload proj =
     (if \<not> shouldEmit s eventType then (None, [])
      else
        (let b = \<lparr>ProjectID = ID proj, Type = eventType, Provider = ''github'',
                  Revision = revn, Payload = payload\<rparr>
         in (CreateBuild env b, [StoreCreateBuild b])))"

subsection \<open>Token exchange and the pull-request lookup\<close>

definition GhClient :: "env \<Rightarrow> Github \<Rightarrow> error option" where
  "GhClient env gh =
     (if BaseURL gh \<noteq> [] then NewEnterpriseClient env (BaseURL gh) (UploadURL gh) else None)"

definition installationToken :: "env \<Rightarrow> bytes \<Rightarrow> int \<Rightarrow> int \<Rightarrow> Github \<Rightarrow> (error + string \<times> time) \<times> effect list" where
  "installationToken env k aid installationID cfg =
     (let aidStr = Itoa env aid
      in case JWT env aidStr k of
           Inl err \<Rightarrow> (Inl err, [])
         | Inr tok \<Rightarrow>
             (case GhClient env cfg of
                Some err \<Rightarrow> (Inl err, [])
              | None \<Rightarrow>
                  (CreateInstallationToken env tok cfg installationID,
                   [RemoteCreateInstallationToken installationID])))"

definition InstallationTokenClient :: "env \<Rightarrow> string \<Rightarrow> string \<Rightarrow> string \<Rightarrow> error option" where
  "InstallationTokenClient env instToken baseURL uploadURL =
     (if baseURL \<noteq> [] then NewEnterpriseClient env baseURL uploadURL else None)"

text \<open>
  The result is Go's pair of a pull-request pointer and an error; both can be nil at
  once, on the path where the response status is not 200 and the error returned is the
  nil error of the successful call.
\<close>

definition getPRFromIssueComment :: "env \<Rightarrow> string \<Rightarrow> IssueCommentEvent \<Rightarrow> Project \<Rightarrow> (PullRequest option \<times> error option) \<times> effect list" where
  "getPRFromIssueComment env token ice proj =
     (let repo = RepoFullName ice
      in case InstallationTokenClient env token (BaseURL (Github proj)) (UploadURL (Github proj)) of
           Some err \<Rightarrow> ((None, Some ErrAuthFailed), [])
         | None \<Rightarrow>
             (let projectNames = strings_Split repo (CHR ''/'')
              in if length projectNames \<noteq> 2 then ((None, Some InvalidRepoName), [])
                 else
                   (let owner = projectNames ! 0; pname = projectNames ! 1;
                        call = RemotePullRequestsGet owner pname (IssueNumber ice)
                    in case PullRequestsGet env token (Github proj) owner pname (IssueNumber ice) of
                         Inl err \<Rightarrow> ((None, Some err), [call])
                       | Inr (pullRequest, statusCode) \<Rightarrow>
                           if statusCode \<noteq> 200 then ((None, None), [call])
                           else ((Some pullRequest, None), [call]))))"

subsection \<open>Enrichment of a comment event\<close>

text \<open>
  Every failure path writes a response and returns the revision together with the raw
  body; the function has no error result. Reading \<open>pullRequest.Head\<close> through a nil
  pointer panics.
\<close>

definition handleIssueCommentEvent :: "env \<Rightarrow> githubHook \<Rightarrow> IssueCommentEvent \<Rightarrow> Revision \<Rightarrow> Project \<Rightarrow> bytes \<Rightarrow> (Revision \<times> bytes) result \<times> effect list" where
  "handleIssueCommentEvent env s ice revn proj body =
     (let aid = AppID (opts s); instID = InstallationID ice
      in if aid = 0 \<or> instID = 0
         then (Returned (revn, body), [Respond 403 ''Auth Failed''])
         else
           (case installationToken env (key s) aid instID (Github proj) of
              (Inl err, es) \<Rightarrow> (Returned (revn, body), es @ [Respond 403 ''Auth Failed''])
            | (Inr (tok, timeout), es) \<Rightarrow>
                (case getPRFromIssueComment env tok ice proj of
                   ((_, Some err), es') \<Rightarrow>
                     (Returned (revn, body),
                      es @ es' @ [Respond 500 ''failed to fetch pull request for corresponding issue comment''])
                 | ((None, None), es') \<Rightarrow> (Panicked, es @ es')
                 | ((Some pullRequest, None), es') \<Rightarrow>
                     (let revn' = revn\<lparr>Commit := HeadSHA pullRequest,
                                     Ref := ''refs/pull/'' @ Itoa env (Number pullRequest) @ ''/head''\<rparr>;
                          res = \<lparr>whBody = body, whAppID = aid, whInstID = instID,
                                 whType = ''issue_comment'', whToken = tok,
                                 whTokenExpires = timeout, whCommit = Commit revn',
                                 whBranch = Ref revn'\<rparr>
                      in case UnmarshalBody env body of
                           Some err \<Rightarrow>
                             (Returned (revn', body),
                              es @ es' @ [Respond 400 ''Our parser is probably broken''])
                         | None \<Rightarrow>
                             (case MarshalWhPayload env res of
                                Inl err \<Rightarrow>
                                  (Returned (revn', body),
                                   es @ es' @ [Respond 500 ''JSON encoding error''])
                              | Inr payload \<Rightarrow> (Returned (revn', payload), es @ es'))))))"

subsection \<open>The comment handler and the router\<close>

text \<open>
  The steps after a valid signature: optional enrichment, the default ref, the build
  for the raw event type, the build for \<open>eventType:action\<close> when there is an action,
  and the final response. The results of both \<open>build\<close> calls are dropped.
\<close>

definition afterSignature :: "env \<Rightarrow> githubHook \<Rightarrow> string \<Rightarrow> IssueCommentEvent \<Rightarrow> Project \<Rightarrow> bytes \<Rightarrow> unit result \<times> effect list" where
  "afterSignature env s eventType ice proj body =
     (let action = Action ice;
          rev0 = \<lparr>Commit = [], Ref = []\<rparr>;
          enriched =
            (if action = ''created'' \<or> action = ''edited'' then
               (if PullRequestLinks ice then
                  (if \<not> isAllowedAuthor s (AuthorAssociation ice) then (Returned (rev0, []), [])
                   else handleIssueCommentEvent env s ice rev0 proj body)
                else (Returned (rev0, []), []))
             else (Returned (rev0, []), []))
      in case enriched of
           (Panicked, es) \<Rightarrow> (Panicked, es)
         | (Returned (rev1, payload), es) \<Rightarrow>
             (let revn = (if Ref rev1 = [] then rev1\<lparr>Ref := ''refs/heads/master''\<rparr> else rev1);
                  b1 = snd (build env s eventType revn payload proj);
                  b2 = (if action \<noteq> []
                        then snd (build env s (eventType @ '':'' @ action) revn payload proj)
                        else [])
              in (Returned (), es @ b1 @ b2 @ [Respond 200 ''Complete''])))"

text \<open>The secret of a delivery: the project's own, else the configured default.\<close>

definition resolveSecret :: "githubHook \<Rightarrow> Project \<Rightarrow> string" where
  "resolveSecret s proj =
     (if SharedSecret proj = [] then DefaultSharedSecret (opts s) else SharedSecret proj)"

definition handleIssueComment :: "env \<Rightarrow> githubHook \<Rightarrow> request \<Rightarrow> string \<Rightarrow> unit result \<times> effect list" where
  "handleIssueComment env s c eventType =
     (case Body c of
        Inl err \<Rightarrow> (Returned (), [Respond 400 ''Malformed body''])
      | Inr body \<Rightarrow>
          (case ParseWebHook env eventType body of
             Inl err \<Rightarrow> (Returned (), [Respond 400 ''Malformed body''])
           | Inr OtherEvent \<Rightarrow>
               (Returned (), [Respond 400 ''Received data is not supported or not valid JSON''])
           | Inr (IssueComment ice) \<Rightarrow>
               (let repo = RepoFullName ice
                in case GetProject env repo of
                     Inl err \<Rightarrow>
                       (Returned (), [StoreGetProject repo, Respond 400 ''project not found''])
                   | Inr proj \<Rightarrow>
                       (let sharedSecret = resolveSecret s proj
                        in if sharedSecret = []
                           then (Returned (),
                                 [StoreGetProject repo,
                                  Respond 500 ''No secret is configured for this repo.''])
                           else
                             (case validateSignature (SHA1HMAC env) (XHubSignature c) sharedSecret body of
                                Some err \<Rightarrow>
                                  (Returned (),
                                   [StoreGetProject repo, Respond 403 ''malformed signature''])
                              | None \<Rightarrow>
                                  (case afterSignature env s eventType ice proj body of
                                     (r, es) \<Rightarrow> (r, StoreGetProject repo # es)))))))"

definition Handle :: "env \<Rightarrow> githubHook \<Rightarrow> request \<Rightarrow> unit result \<times> effect list" where
  "Handle env s c =
     (let event = XGitHubEvent c
      in if event = ''ping'' then (Returned (), [Respond 200 ''OK''])
         else if event = ''issue_comment'' then handleIssueComment env s c event
         else (Returned (), [Respond 200 ''Ignored'']))"

text \<open>
  Whether the handling of a delivery gets past \<open>validateSignature\<close>: it is a comment
  delivery whose body is read and parsed, whose project is found, for which a secret is
  resolved, and whose signature check returns no error.
\<close>

definition signatureValidated :: "env \<Rightarrow> githubHook \<Rightarrow> request \<Rightarrow> bool" where
  "signatureValidated env s c =
     (XGitHubEvent c = ''issue_comment'' \<and>
      (case Body c of
         Inl err \<Rightarrow> False
       | Inr body \<Rightarrow>
           (case ParseWebHook env ''issue_comment'' body of
              Inl err \<Rightarrow> False
            | Inr OtherEvent \<Rightarrow> False
            | Inr (IssueComment ice) \<Rightarrow>
                (case GetProject env (RepoFullName ice) of
                   Inl err \<Rightarrow> False
                 | Inr proj \<Rightarrow>
                     resolveSecret s proj \<noteq> [] \<and>
                     validateSignature (SHA1HMAC env) (XHubSignature c)
                       (resolveSecret s proj) body = None))))"

section \<open>The custom resource handler\<close>

text \<open>Reading a key of the annotation map gives the empty string when the key is absent.\<close>

definition annotation :: "Object \<Rightarrow> string \<Rightarrow> string" where
  "annotation obj k = (case Annotations obj k of None \<Rightarrow> [] | Some v \<Rightarrow> v)"

text \<open>
  The owner and repository are read at positions 0 and 1 of the split annotation,
  without a length check: a split with fewer than two segments panics.
\<close>

definition splitRepo :: "string \<Rightarrow> (string \<times> string) result" where
  "splitRepo gitRepo =
     (case strings_Split gitRepo (CHR ''/'') of
        [] \<Rightarrow> Panicked
      | [owner] \<Rightarrow> Panicked
      | owner # repo # _ \<Rightarrow> Returned (owner, repo))"

text \<open>
  The action decision. In Go \<open>&&\<close> binds tighter than \<open>||\<close>, so the dry-run test is
  attached to the \<open>"yes"\<close> alternative alone.
\<close>

definition eventTypeAction :: "Handler \<Rightarrow> Object \<Rightarrow> string \<Rightarrow> string \<Rightarrow> string" where
  "eventTypeAction h obj approvedStr dryRunStr =
     (if DeletionTimestamp obj \<noteq> None then eventTypeActionDestroy h
      else if approvedStr = [] \<or> approvedStr = ''true'' \<or>
              (approvedStr = ''yes'' \<and>
                 (dryRunStr = [] \<or> dryRunStr = ''no'' \<or> dryRunStr = ''false''))
           then eventTypeActionApply h
      else eventTypeActionPlan h)"

definition Handler_build :: "env \<Rightarrow> Handler \<Rightarrow> string \<Rightarrow> crPayload \<Rightarrow> Project \<Rightarrow> error option \<times> effect list" where
  "Handler_build env h eventAction payload proj =
     (case MarshalCrPayload env payload of
        Inl err \<Rightarrow> (Some err, [])
      | Inr payloadJsonBytes \<Rightarrow>
          (let b = \<lparr>ProjectID = ID proj, Type = eventAction, Provider = ''brigade-cd'',
                    Revision = \<lparr>Commit = pCommit payload,
                                 Ref = ''refs/heads/'' @ pBranch payload\<rparr>,
                    Payload = payloadJsonBytes\<rparr>
           in (CreateBuild env b, [StoreCreateBuild b])))"

text \<open>
  The payload fields taken from the annotations: owner, repository and pull id; the
  commit, or else the default branch; the branch annotation, which overrides; and the
  app id of the handler.
\<close>

definition fillPayload :: "Handler \<Rightarrow> string \<Rightarrow> Object \<Rightarrow> string \<Rightarrow> string \<Rightarrow> crPayload" where
  "fillPayload h eventType obj owner repo =
     (let payload0 = \<lparr>pType = eventType, pToken = [], pTokenExpires = 0, pBody = None,
                      pAppID = 0, pInstID = 0, pCommit = [], pBranch = [],
                      pOwner = [], pRepo = [], pPull = [], pPullURL = []\<rparr>;
          gitCommitId = annotation obj ''cd.brigade.sh/git-commit'';
          gitBranch = annotation obj ''cd.brigade.sh/git-branch'';
          pullIdStr = annotation obj ''cd.brigade.sh/github-pull-id'';
          payload1 = payload0\<lparr>pOwner := owner, pRepo := repo, pPull := pullIdStr\<rparr>;
          payload2 = (if gitCommitId \<noteq> [] then payload1\<lparr>pCommit := gitCommitId\<rparr>
                      else payload1\<lparr>pBranch := defaultBranch h\<rparr>);
          payload3 = (if gitBranch \<noteq> [] then payload2\<lparr>pBranch := gitBranch\<rparr> else payload2)
      in payload3\<lparr>pAppID := appID h\<rparr>)"

text \<open>The installation id: zero when the annotation is empty, else its conversion.\<close>

definition readInstID :: "env \<Rightarrow> string \<Rightarrow> error + int" where
  "readInstID env instIDStr =
     (if length instIDStr > 0
      then (case Atoi env instIDStr of
              Inl err \<Rightarrow> Inl (FailedConverting instIDStr err)
            | Inr instID \<Rightarrow> Inr instID)
      else Inr 0)"

text \<open>The token is minted only when both the installation id and the app id are positive.\<close>

definition attachToken :: "env \<Rightarrow> Handler \<Rightarrow> Project \<Rightarrow> int \<Rightarrow> crPayload \<Rightarrow> (error + crPayload) \<times> effect list" where
  "attachToken env h proj instID payload =
     (if instID > 0 \<and> appID h > 0
      then (case installationToken env (hkey h) (appID h) instID (Github proj) of
              (Inl err, es) \<Rightarrow> (Inl (FailedNegotiate err), es)
            | (Inr (tok, timeout), es) \<Rightarrow>
                (Inr (payload\<lparr>pToken := tok, pTokenExpires := timeout\<rparr>), es))
      else (Inr payload, []))"

text \<open>
  The end of \<open>HandleState\<close>: the build, the phase, the packing. \<open>s\<close> is the local
  state that \<open>state.Unpack\<close> filled from \<open>ss\<close>, and \<open>obj\<close> is the local \<open>o\<close>, which
  \<open>o := s.Object\<close> made a copy of the object, a struct value. The phase is assigned
  to that copy (\<open>obj'\<close>); \<open>state.Pack\<close> then writes \<open>s\<close> into \<open>ss\<close>.
\<close>

definition emitAndPack :: "env \<Rightarrow> Handler \<Rightarrow> State \<Rightarrow> State \<Rightarrow> Object \<Rightarrow> string \<Rightarrow> crPayload \<Rightarrow> Project \<Rightarrow> error option \<times> effect list \<times> State" where
  "emitAndPack env h s ss obj act payload proj =
     (case Handler_build env h act payload proj of
        (Some err, bs) \<Rightarrow> (Some err, bs, ss)
      | (None, bs) \<Rightarrow>
          (let obj' = (if Phase obj \<noteq> ''completed'' then obj\<lparr>Phase := ''completed''\<rparr> else obj)
           in case Pack env s of
                Some err \<Rightarrow> (Some err, bs, ss)
              | None \<Rightarrow> (None, bs, s)))"

text \<open>
  What \<open>HandleState\<close> does once the project is found: the token, the check that the
  object can be marshalled, the pull URL and the body, the action, and the end above.
\<close>

definition afterLookup :: "env \<Rightarrow> Handler \<Rightarrow> State \<Rightarrow> State \<Rightarrow> Object \<Rightarrow> int \<Rightarrow> crPayload \<Rightarrow> Project \<Rightarrow> error option \<times> effect list \<times> State" where
  "afterLookup env h s ss obj instID payload5 proj =
     (let approvedStr = annotation obj ''cd.brigade.sh/approved'';
          dryRunStr = annotation obj ''cd.brigade.sh/dry-run'';
          pullIdStr = annotation obj ''cd.brigade.sh/github-pull-id'';
          projName = brigadeProject h
      in case attachToken env h proj instID payload5 of
           (Inl err, es) \<Rightarrow> (Some err, es, ss)
         | (Inr payload6, es) \<Rightarrow>
             (case MarshalObject env obj of
                Some err \<Rightarrow> (Some err, es, ss)
              | None \<Rightarrow>
                  (let pullUrl = ''https://api.github.com/repos/'' @ projName
                                   @ ''/pulls/'' @ pullIdStr;
                       payload = payload6\<lparr>pPullURL := pullUrl, pBody := Some obj\<rparr>;
                       act = eventTypeAction h obj approvedStr dryRunStr
                   in case emitAndPack env h s ss obj act payload proj of
                        (r, bs, ss') \<Rightarrow> (r, es @ bs, ss'))))"

text \<open>
  \<open>HandleState\<close> answers how it ended (a returned error, \<open>None\<close> for nil, or a
  panic), what it did, and the contents of the state \<open>ss\<close> afterwards.
\<close>

definition HandleState :: "env \<Rightarrow> Handler \<Rightarrow> State \<Rightarrow> error option result \<times> effect list \<times> State" where
  "HandleState env h ss =
     (case Unpack env ss of
        Some err \<Rightarrow> (Returned (Some err), [], ss)
      | None \<Rightarrow>
          (let s = ss;
               obj = Object s;
               eventType = ToLower env (Kind obj);
               instIDStr = annotation obj ''cd.brigade.sh/github-app-inst-id'';
               gitRepo = annotation obj ''cd.brigade.sh/git-repo''
           in case splitRepo gitRepo of
                Panicked \<Rightarrow> (Panicked, [], ss)
              | Returned (owner, repo) \<Rightarrow>
                  (let payload4 = fillPayload h eventType obj owner repo
                   in case readInstID env instIDStr of
                        Inl err \<Rightarrow> (Returned (Some err), [], ss)
                      | Inr instID \<Rightarrow>
                          (let payload5 = (if length instIDStr > 0 then payload4\<lparr>pInstID := instID\<rparr>
                                           else payload4);
                               projName = brigadeProject h
                           in case GetProject env projName of
                                Inl err \<Rightarrow> (Returned (Some err), [StoreGetProject projName], ss)
                              | Inr proj \<Rightarrow>
                                  (case afterLookup env h s ss obj instID payload5 proj of
                                     (r, es, ss') \<Rightarrow>
                                       (Returned r, StoreGetProject projName # es, ss'))))))"

text \<open>The handler \<open>Run\<close> builds for one mapping entry.\<close>

definition newHandler :: "env \<Rightarrow> Mapping \<Rightarrow> bytes \<Rightarrow> int \<Rightarrow> Handler" where
  "newHandler env k ckey cappID =
     (let lkind = ToLower env (MappingKind k)
      in \<lparr>brigadeProject = BrigadeProject k,
          eventTypeActionApply = lkind @ '':apply'',
          eventTypeActionDestroy = lkind @ '':destroy'',
          eventTypeActionPlan = lkind @ '':plan'',
          defaultBranch = ''master'',
          hkey = ckey,
          appID = cappID\<rparr>)"

section \<open>Sample deliveries and snapshots\<close>

text \<open>
  A project, a hook configuration and an environment used to run the handlers on
  concrete inputs. The environment parses every body into the given comment event,
  knows the projects \<open>octo/repo\<close> and \<open>deploys\<close>, and answers the pull-request lookup
  with the given status code.
\<close>

definition sampleProject :: Project where
  "sampleProject =
     \<lparr>ID = ''brigade-4d2a'', SharedSecret = ''s3cret'',
      Github = \<lparr>BaseURL = [], UploadURL = []\<rparr>\<rparr>"

definition sampleEnv :: "IssueCommentEvent \<Rightarrow> nat \<Rightarrow> env" where
  "sampleEnv ice statusCode =
     \<lparr>GetProject = (\<lambda>name. if name = ''octo/repo'' \<or> name = ''deploys''
                               then Inr sampleProject else Inl (Err ''project not found'')),
      CreateBuild = (\<lambda>b. None),
      ParseWebHook = (\<lambda>t body. Inr (IssueComment ice)),
      SHA1HMAC = (\<lambda>k body. ''sha1='' @ k @ body),
      JWT = (\<lambda>aid k. Inr (''jwt.'' @ aid)),
      Itoa = (\<lambda>i. if i = 5 then ''5'' else ''42''),
      Atoi = (\<lambda>str. if str = ''1247339'' then Inr 1247339 else Inl (Err ''invalid syntax'')),
      ToLower = (\<lambda>str. if str = ''ReleaseSet'' then ''releaseset'' else str),
      NewEnterpriseClient = (\<lambda>b u. None),
      CreateInstallationToken = (\<lambda>tok cfg inst. Inr (''v1.token'', 3600)),
      PullRequestsGet = (\<lambda>tok cfg owner repo n.
                           Inr (\<lparr>HeadSHA = ''b643d461'', Number = n\<rparr>, statusCode)),
      UnmarshalBody = (\<lambda>body. None),
      MarshalWhPayload = (\<lambda>p. Inr (''{token:'' @ whToken p @ ''}'')),
      MarshalCrPayload = (\<lambda>p. Inr (''{type:'' @ pType p @ '',token:'' @ pToken p @ ''}'')),
      MarshalObject = (\<lambda>ob. None),
      Unpack = (\<lambda>st. None),
      Pack = (\<lambda>st. None)\<rparr>"

definition sampleHook :: "int \<Rightarrow> string list \<Rightarrow> githubHook" where
  "sampleHook aid events =
     \<lparr>opts = \<lparr>AppID = aid, DefaultSharedSecret = [], EmittedEvents = events\<rparr>,
      allowedAuthors = [''COLLABORATOR'', ''OWNER'', ''MEMBER''],
      key = ''pem''\<rparr>"

definition sampleComment :: "string \<Rightarrow> string \<Rightarrow> IssueCommentEvent" where
  "sampleComment action assoc =
     \<lparr>Action = action, RepoFullName = ''octo/repo'', PullRequestLinks = True,
      IssueNumber = 5, AuthorAssociation = assoc, InstallationID = 7\<rparr>"

definition sampleRequest :: "string \<Rightarrow> request" where
  "sampleRequest signature =
     \<lparr>XGitHubEvent = ''issue_comment'', XHubSignature = signature, Body = Inr ''{}''\<rparr>"

text \<open>
  A mapping entry, the handler built for it, and resource snapshots of kind
  \<open>ReleaseSet\<close> with given annotations, deletion timestamp and status phase.
\<close>

definition sampleMapping :: "string \<Rightarrow> Mapping" where
  "sampleMapping project =
     \<lparr>MappingGroup = ''helmfile.helm.sh'', MappingVersion = ''v1alpha1'',
      MappingKind = ''ReleaseSet'', BrigadeProject = project\<rparr>"

definition resourceEnv :: env where
  "resourceEnv = sampleEnv (sampleComment [] []) 200"

definition sampleHandler :: "string \<Rightarrow> Handler" where
  "sampleHandler project = newHandler resourceEnv (sampleMapping project) ''pem'' 0"

definition sampleState :: "(string \<times> string) list \<Rightarrow> time option \<Rightarrow> string \<Rightarrow> State" where
  "sampleState annotations deleted phase =
     \<lparr>Object = \<lparr>Kind = ''ReleaseSet'', Annotations = map_of annotations,
                 DeletionTimestamp = deleted, Phase = phase\<rparr>\<rparr>"

definition sampleResourceBuild :: "string \<Rightarrow> Build" where
  "sampleResourceBuild eventType =
     \<lparr>ProjectID = ''brigade-4d2a'', Type = eventType, Provider = ''brigade-cd'',
      Revision = \<lparr>Commit = [], Ref = ''refs/heads/master''\<rparr>,
      Payload = ''{type:releaseset,token:}''\<rparr>"

text \<open>The revision of a build whose event was not enriched: no commit, the default ref.\<close>

definition defaultRevision :: Revision where
  "defaultRevision = \<lparr>Commit = [], Ref = ''refs/heads/master''\<rparr>"

definition sampleBuild :: "string \<Rightarrow> bytes \<Rightarrow> Build" where
  "sampleBuild eventType payload =
     \<lparr>ProjectID = ''brigade-4d2a'', Type = eventType, Provider = ''github'',
      Revision = defaultRevision, Payload = payload\<rparr>"

section \<open>Properties of the library functions\<close>

lemma Split_no_sep:
  assumes "sep \<notin> set s"
  shows "strings_Split s sep = [s]"
proof -
  have d: "dropWhile (\<lambda>c. c \<noteq> sep) s = []"
    using assms by auto
  show ?thesis
    by (subst strings_Split.simps) (simp only: d list.case)
qed

lemma Split_at_sep:
  assumes "sep \<notin> set a"
  shows "strings_Split (a @ sep # b) sep = a # strings_Split b sep"
proof -
  have d: "dropWhile (\<lambda>c. c \<noteq> sep) (a @ sep # b) = sep # b"
    using assms by (subst dropWhile_append2) auto
  have t: "takeWhile (\<lambda>c. c \<noteq> sep) (a @ sep # b) = a"
    using assms by (subst takeWhile_append2) auto
  show ?thesis
    by (subst strings_Split.simps) (simp only: d t list.case)
qed

lemma Split_not_Nil: "strings_Split s sep \<noteq> []"
  by (subst strings_Split.simps) (simp split: list.split)

lemma Split_with_sep:
  assumes "sep \<in> set s"
  shows "\<exists>a b. s = a @ sep # b \<and> sep \<notin> set a \<and> strings_Split s sep = a # strings_Split b sep"
proof -
  obtain a b where s: "s = a @ sep # b" and a: "sep \<notin> set a"
    using assms by (meson split_list_first)
  then show ?thesis using Split_at_sep [OF a, of b] by blast
qed

lemma Split_length_ge2: "2 \<le> length (strings_Split s sep) \<longleftrightarrow> sep \<in> set s"
proof
  assume "2 \<le> length (strings_Split s sep)"
  then show "sep \<in> set s"
    by (rule contrapos_pp) (simp add: Split_no_sep)
next
  assume "sep \<in> set s"
  then obtain a b where "strings_Split s sep = a # strings_Split b sep"
    using Split_with_sep by blast
  moreover have "1 \<le> length (strings_Split b sep)"
    using Split_not_Nil [of b sep] by (cases "strings_Split b sep") simp_all
  ultimately show "2 \<le> length (strings_Split s sep)" by simp
qed

lemma xor_zero_eq: "(a::8 word) XOR b = 0 \<Longrightarrow> a = b"
  by (metis bit.xor_left_self xor.right_neutral)

lemma ucast_small: "unat (ucast (x::8 word) :: 32 word) = unat x"
proof -
  have "unat x < 2 ^ 8" using unsigned_less [of x, where 'a = nat] by simp
  then have "unat x < 2 ^ 32" by simp
  then show ?thesis by (simp add: unsigned_ucast_eq take_bit_nat_eq_self)
qed

lemma ByteEq_zero_t: "ConstantTimeByteEq 0 0 = 1"
  by (simp add: ConstantTimeByteEq_def drop_bit_eq_div)

lemma ByteEq_zero_f:
  assumes "x \<noteq> 0" shows "ConstantTimeByteEq x 0 = 0"
proof -
  let ?w = "ucast x :: 32 word"
  have lt: "unat x < 2 ^ 8" using unsigned_less [of x, where 'a = nat] by simp
  have "unat ?w \<noteq> 0" using assms by (simp add: ucast_small unat_0_iff)
  then have "?w \<noteq> 0" by (metis unat_0)
  then have a: "unat (?w - 1) = unat x - 1"
    by (simp add: unat_minus_one ucast_small)
  have "unat (drop_bit 31 (?w - 1)) = drop_bit 31 (unat (?w - 1))"
    by (rule unat_drop_bit_eq)
  also have "\<dots> = (unat x - 1) div 2 ^ 31"
    by (simp only: a drop_bit_eq_div)
  also have "\<dots> = 0"
    using lt by simp
  finally have "unat (drop_bit 31 (?w - 1)) = 0" .
  then have "drop_bit 31 (?w - 1) = 0" by (simp add: unat_0_iff)
  then show ?thesis by (simp add: ConstantTimeByteEq_def)
qed

lemma ctc_loop_zero:
  "length x = length y \<Longrightarrow> ctc_loop v x y = 0 \<longleftrightarrow> v = 0 \<and> x = y"
  by (induction v x y rule: ctc_loop.induct) (auto simp: or_eq_0_iff dest: xor_zero_eq)

lemma ConstantTimeCompare_iff: "ConstantTimeCompare x y = 1 \<longleftrightarrow> x = y"
proof (cases "length x = length y")
  case False
  then show ?thesis by (auto simp: ConstantTimeCompare_def)
next
  case True
  show ?thesis
  proof (cases "ctc_loop 0 x y = 0")
    case z: True
    then show ?thesis using True ctc_loop_zero [OF True, of 0]
      by (simp add: ConstantTimeCompare_def ByteEq_zero_t)
  next
    case nz: False
    then show ?thesis using True ctc_loop_zero [OF True, of 0]
      by (simp add: ConstantTimeCompare_def ByteEq_zero_f)
  qed
qed

lemma byte_of_inj: "byte_of c = byte_of d \<longleftrightarrow> c = d"
proof
  assume "byte_of c = byte_of d"
  then have "unat (of_nat (of_char c) :: 8 word) = unat (of_nat (of_char d) :: 8 word)"
    by (simp add: byte_of_def)
  then have "(of_char c :: nat) mod 256 = of_char d mod 256"
    by (simp add: unat_of_nat)
  then show "c = d" by simp
qed simp

lemma map_byte_of_inj: "map byte_of a = map byte_of b \<longleftrightarrow> a = b"
  by (auto simp: inj_map_eq_map inj_on_def byte_of_inj intro!: injI)

lemma validateSignature_iff:
  "validateSignature hmac signature secretKey payload =
     (if signature = hmac secretKey payload then None else Some SignatureCheckFailed)"
  by (auto simp: validateSignature_def ConstantTimeCompare_iff map_byte_of_inj)

lemma ctc_loop_steps_eq:
  "ctc_loop_steps v n x y = (ctc_loop v x y, n + min (length x) (length y))"
  by (induction v n x y rule: ctc_loop_steps.induct) simp_all

lemma ConstantTimeCompare_steps_eq:
  "ConstantTimeCompare_steps x y =
     (ConstantTimeCompare x y, if length x = length y then length x else 0)"
  by (simp add: ConstantTimeCompare_steps_def ConstantTimeCompare_def ctc_loop_steps_eq)

lemma validateSignature_steps_eq:
  "validateSignature_steps hmac signature secretKey payload =
     (validateSignature hmac signature secretKey payload,
      if length signature = length (hmac secretKey payload) then length signature else 0)"
  by (auto simp: validateSignature_steps_def validateSignature_def ConstantTimeCompare_steps_eq Let_def)

text \<open>
  Claim C6. For every body and secret, \<open>validateSignature\<close> succeeds (returns no
  error) when the supplied signature is the keyed hash of the body under the secret,
  and returns the signature error for every other supplied value. The comparison is
  constant-time: counted in byte pairs combined, its work is the length of the
  signature when the lengths agree and zero otherwise, so two supplied signatures of
  the same length cost the same whether or not they match.
\<close>

theorem validateSignature_correct:
  "validateSignature hmac signature secretKey payload =
     (if signature = hmac secretKey payload then None else Some SignatureCheckFailed)
   \<and> fst (validateSignature_steps hmac signature secretKey payload) =
       validateSignature hmac signature secretKey payload
   \<and> snd (validateSignature_steps hmac signature secretKey payload) =
       (if length signature = length (hmac secretKey payload) then length signature else 0)
   \<and> (length signature' = length signature \<longrightarrow>
        snd (validateSignature_steps hmac signature' secretKey payload) =
        snd (validateSignature_steps hmac signature secretKey payload))"
  unfolding validateSignature_steps_eq validateSignature_def
  by (auto simp: ConstantTimeCompare_iff map_byte_of_inj)

theorem validateSignature_correct_witness:
  "length ''sha1=0000'' = length ''sha1=beef''
   \<and> validateSignature (\<lambda>k p. ''sha1=beef'') ''sha1=beef'' ''s3cret'' ''{}'' = None
   \<and> validateSignature (\<lambda>k p. ''sha1=beef'') ''sha1=0000'' ''s3cret'' ''{}'' = Some SignatureCheckFailed
   \<and> snd (validateSignature_steps (\<lambda>k p. ''sha1=beef'') ''sha1=0000'' ''s3cret'' ''{}'') = 9
   \<and> snd (validateSignature_steps (\<lambda>k p. ''sha1=beef'') ''sha1=beef'' ''s3cret'' ''{}'') = 9"
  using validateSignature_correct [of "\<lambda>k p. ''sha1=beef''" "''sha1=beef''" "''s3cret''" "''{}''" "''sha1=0000''"]
    validateSignature_correct [of "\<lambda>k p. ''sha1=beef''" "''sha1=0000''" "''s3cret''" "''{}''" "''sha1=beef''"]
  by simp

section \<open>Properties of the webhook handler\<close>

lemma isAllowedAuthor_iff: "isAllowedAuthor s author \<longleftrightarrow> author \<in> set (allowedAuthors s)"
proof -
  have "isAllowedAuthor_loop as author \<longleftrightarrow> author \<in> set as" for as
    by (induction as) auto
  then show ?thesis by (simp add: isAllowedAuthor_def)
qed

lemma shouldEmit_loop_iff:
  "shouldEmit_loop es event action \<longleftrightarrow>
     (\<exists>e\<in>set es. e = ''*'' \<or> e = event \<or> e = event @ '':'' @ action)"
  by (induction es) auto

lemma shouldEmit_first_segment:
  assumes "CHR '':'' \<notin> set kind"
  shows "shouldEmit s (kind @ '':'' @ rest) \<longleftrightarrow>
     (\<exists>e\<in>set (EmittedEvents (opts s)).
        e = ''*'' \<or> e = kind \<or> e = kind @ '':'' @ hd (strings_Split rest (CHR '':'')))"
proof -
  have "strings_Split (kind @ '':'' @ rest) (CHR '':'') = kind # strings_Split rest (CHR '':'')"
    using Split_at_sep [OF assms, of rest] by simp
  then show ?thesis
    using Split_not_Nil [of rest "CHR '':''"]
    by (cases "strings_Split rest (CHR '':'')") (simp_all add: shouldEmit_def shouldEmit_loop_iff)
qed

lemma shouldEmit_qualified:
  assumes "CHR '':'' \<notin> set kind" and "CHR '':'' \<notin> set action"
  shows "shouldEmit s (kind @ '':'' @ action) \<longleftrightarrow>
     (\<exists>e\<in>set (EmittedEvents (opts s)). e = ''*'' \<or> e = kind \<or> e = kind @ '':'' @ action)"
  using shouldEmit_first_segment [OF assms(1), of s action] Split_no_sep [OF assms(2)]
  by simp

lemma shouldEmit_unqualified:
  assumes "CHR '':'' \<notin> set kind"
  shows "shouldEmit s kind \<longleftrightarrow>
     (\<exists>e\<in>set (EmittedEvents (opts s)). e = ''*'' \<or> e = kind \<or> e = kind @ '':'')"
  using Split_no_sep [OF assms]
  by (simp add: shouldEmit_def shouldEmit_loop_iff)

lemma shouldEmit_wildcard:
  assumes "''*'' \<in> set (EmittedEvents (opts s))"
  shows "shouldEmit s c"
  using assms Split_not_Nil [of c "CHR '':''"]
  by (cases "strings_Split c (CHR '':'')") (auto simp: shouldEmit_def shouldEmit_loop_iff)

lemma build_no_remote: "filter is_remote_call (snd (build env s t revn payload proj)) = []"
  by (simp add: build_def Let_def)

lemma handleIssueComment_reaches_check:
  assumes "Body c = Inr body"
      and "ParseWebHook env t body = Inr (IssueComment ice)"
      and "GetProject env (RepoFullName ice) = Inr proj"
      and "resolveSecret s proj \<noteq> []"
  shows "handleIssueComment env s c t =
     (if XHubSignature c = SHA1HMAC env (resolveSecret s proj) body
      then (case afterSignature env s t ice proj body of
              (r, es) \<Rightarrow> (r, StoreGetProject (RepoFullName ice) # es))
      else (Returned (), [StoreGetProject (RepoFullName ice), Respond 403 ''malformed signature'']))"
  using assms by (simp add: handleIssueComment_def Let_def validateSignature_iff)

lemma afterSignature_plain:
  assumes "\<not> ((Action ice = ''created'' \<or> Action ice = ''edited'') \<and> PullRequestLinks ice
             \<and> isAllowedAuthor s (AuthorAssociation ice))"
  shows "afterSignature env s t ice proj body =
     (Returned (),
      snd (build env s t defaultRevision [] proj)
      @ (if Action ice \<noteq> [] then snd (build env s (t @ '':'' @ Action ice) defaultRevision [] proj)
         else [])
      @ [Respond 200 ''Complete''])"
  using assms by (auto simp: afterSignature_def Let_def defaultRevision_def)

text \<open>Facts about the sample configuration, for running the handlers on concrete inputs.\<close>

lemma sample_request [simp]:
  "XGitHubEvent (sampleRequest sg) = ''issue_comment''"
  "XHubSignature (sampleRequest sg) = sg"
  "Body (sampleRequest sg) = Inr ''{}''"
  by (simp_all add: sampleRequest_def)

lemma sample_comment [simp]:
  "Action (sampleComment a assoc) = a"
  "RepoFullName (sampleComment a assoc) = ''octo/repo''"
  "PullRequestLinks (sampleComment a assoc)"
  "IssueNumber (sampleComment a assoc) = 5"
  "AuthorAssociation (sampleComment a assoc) = assoc"
  "InstallationID (sampleComment a assoc) = 7"
  by (simp_all add: sampleComment_def)

lemma sample_hook [simp]:
  "AppID (opts (sampleHook aid evs)) = aid"
  "EmittedEvents (opts (sampleHook aid evs)) = evs"
  "key (sampleHook aid evs) = ''pem''"
  "resolveSecret (sampleHook aid evs) sampleProject = ''s3cret''"
  "isAllowedAuthor (sampleHook aid evs) assoc \<longleftrightarrow>
     assoc = ''COLLABORATOR'' \<or> assoc = ''OWNER'' \<or> assoc = ''MEMBER''"
  by (auto simp: sampleHook_def resolveSecret_def sampleProject_def isAllowedAuthor_iff)

lemma sample_env [simp]:
  "ParseWebHook (sampleEnv ice n) t body = Inr (IssueComment ice)"
  "GetProject (sampleEnv ice n) ''octo/repo'' = Inr sampleProject"
  "GetProject (sampleEnv ice n) ''deploys'' = Inr sampleProject"
  "SHA1HMAC (sampleEnv ice n) k body = ''sha1='' @ k @ body"
  "CreateBuild (sampleEnv ice n) b = None"
  by (simp_all add: sampleEnv_def)

lemma sample_project [simp]:
  "ID sampleProject = ''brigade-4d2a''"
  "Github sampleProject = \<lparr>BaseURL = [], UploadURL = []\<rparr>"
  by (simp_all add: sampleProject_def)

lemma sample_wildcard [simp]: "shouldEmit (sampleHook aid [''*'']) x"
  by (rule shouldEmit_wildcard) simp

subsection \<open>The emission filter\<close>

text \<open>
  Claim C4, as the code has it. The filter splits the candidate at colons and compares
  the patterns with the first segment and with the first two segments joined by a
  colon. For a kind and an action without colons, the candidate \<open>kind:action\<close> is
  accepted iff some pattern is \<open>*\<close>, \<open>kind\<close> or \<open>kind:action\<close>; the unqualified
  candidate \<open>kind\<close> is accepted iff some pattern is \<open>*\<close>, \<open>kind\<close>, or \<open>kind\<close>
  followed by a bare colon. The pattern list \<open>["*"]\<close> accepts every candidate,
  \<open>["push"]\<close> accepts \<open>push\<close> and every \<open>push:<anything>\<close>, and among such
  candidates \<open>["push:opened"]\<close> accepts only \<open>push:opened\<close>.
\<close>

theorem shouldEmit_first_two_segments:
  assumes "CHR '':'' \<notin> set kind" and "CHR '':'' \<notin> set action"
  shows "(shouldEmit s (kind @ '':'' @ action) \<longleftrightarrow>
            (\<exists>e\<in>set (EmittedEvents (opts s)).
               e = ''*'' \<or> e = kind \<or> e = kind @ '':'' @ action))
       \<and> (shouldEmit s kind \<longleftrightarrow>
            (\<exists>e\<in>set (EmittedEvents (opts s)). e = ''*'' \<or> e = kind \<or> e = kind @ '':''))
       \<and> shouldEmit (sampleHook aid [''*'']) c
       \<and> shouldEmit (sampleHook aid [''push'']) ''push''
       \<and> shouldEmit (sampleHook aid [''push'']) (''push:'' @ anything)
       \<and> (shouldEmit (sampleHook aid [''push:opened'']) (kind @ '':'' @ action) \<longleftrightarrow>
            kind = ''push'' \<and> action = ''opened'')
       \<and> \<not> shouldEmit (sampleHook aid [''push:opened'']) kind"
proof -
  have p: "CHR '':'' \<notin> set ''push''" by simp
  have a: "shouldEmit (sampleHook aid [''*'']) c"
    by (rule shouldEmit_wildcard) (simp add: sampleHook_def)
  have b: "shouldEmit (sampleHook aid [''push'']) ''push''"
    using shouldEmit_unqualified [OF p, of "sampleHook aid [''push'']"]
    by (simp add: sampleHook_def)
  have c: "shouldEmit (sampleHook aid [''push'']) (''push:'' @ anything)"
    using shouldEmit_first_segment [OF p, of "sampleHook aid [''push'']" anything]
    by (simp add: sampleHook_def)
  have d: "shouldEmit (sampleHook aid [''push:opened'']) (kind @ '':'' @ action) \<longleftrightarrow>
            kind = ''push'' \<and> action = ''opened''"
  proof -
    have "kind @ '':'' @ action = ''push:opened'' \<longleftrightarrow> kind = ''push'' \<and> action = ''opened''"
    proof
      assume eq: "kind @ '':'' @ action = ''push:opened''"
      have "strings_Split (kind @ '':'' @ action) (CHR '':'') = [kind, action]"
        using Split_at_sep [OF assms(1), of action] Split_no_sep [OF assms(2)] by simp
      moreover have "strings_Split ''push:opened'' (CHR '':'') = [''push'', ''opened'']"
        by (simp add: strings_Split.simps)
      ultimately show "kind = ''push'' \<and> action = ''opened''" using eq by simp
    qed simp
    moreover have "kind \<noteq> ''push:opened''" using assms(1) by auto
    ultimately show ?thesis
      using shouldEmit_qualified [OF assms, of "sampleHook aid [''push:opened'']"]
      by (simp add: sampleHook_def)
  qed
  have e: "\<not> shouldEmit (sampleHook aid [''push:opened'']) kind"
  proof -
    have "kind \<noteq> ''push:opened''" "kind @ '':'' \<noteq> ''push:opened''"
      using assms(1) by auto
    then show ?thesis
      using shouldEmit_unqualified [OF assms(1), of "sampleHook aid [''push:opened'']"]
      by (simp add: sampleHook_def)
  qed
  show ?thesis
    using shouldEmit_qualified [OF assms, of s] shouldEmit_unqualified [OF assms(1), of s] a b c d e
    by blast
qed

theorem shouldEmit_first_two_segments_witness:
  "CHR '':'' \<notin> set ''issue_comment'' \<and> CHR '':'' \<notin> set ''created''
   \<and> shouldEmit (sampleHook 0 [''issue_comment:created'']) ''issue_comment:created''
   \<and> \<not> shouldEmit (sampleHook 0 [''issue_comment:created'']) ''issue_comment''
   \<and> shouldEmit (sampleHook 0 [''*'']) ''deployment:created''
   \<and> shouldEmit (sampleHook 0 [''push'']) ''push:anything''"
proof -
  have k: "CHR '':'' \<notin> set ''issue_comment''" and a: "CHR '':'' \<notin> set ''created''"
    by simp_all
  show ?thesis
    using k a shouldEmit_first_two_segments [OF k a, of "sampleHook 0 [''issue_comment:created'']" 0
        "''deployment:created''" "''anything''"]
    by (simp add: sampleHook_def)
qed

text \<open>
  The claim as stated fails at the edges: the pattern \<open>push:\<close> accepts the unqualified
  candidate \<open>push\<close>; the pattern \<open>push:opened\<close> accepts the longer candidate
  \<open>push:opened:x\<close>; and the pattern \<open>push:opened:x\<close>, equal to that candidate, does
  not accept it.
\<close>

theorem shouldEmit_exact_match_counterexample:
  "shouldEmit (sampleHook 0 [''push:'']) ''push''
   \<and> shouldEmit (sampleHook 0 [''push:opened'']) ''push:opened:x''
   \<and> \<not> shouldEmit (sampleHook 0 [''push:opened:x'']) ''push:opened:x''"
  by (simp add: shouldEmit_def sampleHook_def strings_Split.simps)

subsection \<open>Signature validation comes after the project lookup\<close>

lemma unvalidated_effects:
  assumes "\<not> signatureValidated env s c"
  shows "fst (Handle env s c) = Returned ()
       \<and> filter is_build (snd (Handle env s c)) = []
       \<and> filter is_remote_call (snd (Handle env s c)) = []
       \<and> length (filter is_store_op (snd (Handle env s c))) \<le> 1"
  using assms
  by (auto simp: Handle_def handleIssueComment_def signatureValidated_def Let_def
      split: sum.splits parsed.splits option.splits)

text \<open>
  Claim C1, as the code has it. The secret belongs to the project, so the project is
  looked up in the store before the signature can be checked. For every delivery:
  unless the signature check has succeeded, the handler creates no build, makes no
  remote call (no token request, no pull-request lookup) and performs at most one
  store operation, that project lookup. And for every comment delivery that reaches
  the check (body read and parsed, project found, a secret resolved) and whose
  signature does not match, the signature check has not succeeded, the handler answers
  403, and the project lookup is its only store operation.
\<close>

theorem signature_gate:
  "(\<not> signatureValidated env s c \<longrightarrow>
       fst (Handle env s c) = Returned ()
     \<and> filter is_build (snd (Handle env s c)) = []
     \<and> filter is_remote_call (snd (Handle env s c)) = []
     \<and> length (filter is_store_op (snd (Handle env s c))) \<le> 1)
   \<and> (XGitHubEvent c = ''issue_comment''
      \<and> Body c = Inr body
      \<and> ParseWebHook env ''issue_comment'' body = Inr (IssueComment ice)
      \<and> GetProject env (RepoFullName ice) = Inr proj
      \<and> resolveSecret s proj \<noteq> []
      \<and> XHubSignature c \<noteq> SHA1HMAC env (resolveSecret s proj) body \<longrightarrow>
        \<not> signatureValidated env s c
      \<and> Handle env s c =
          (Returned (), [StoreGetProject (RepoFullName ice), Respond 403 ''malformed signature''])
      \<and> filter is_store_op (snd (Handle env s c)) = [StoreGetProject (RepoFullName ice)])"
proof -
  have b: "\<not> signatureValidated env s c
      \<and> Handle env s c =
          (Returned (), [StoreGetProject (RepoFullName ice), Respond 403 ''malformed signature''])
      \<and> filter is_store_op (snd (Handle env s c)) = [StoreGetProject (RepoFullName ice)]"
    if h: "XGitHubEvent c = ''issue_comment''" "Body c = Inr body"
      "ParseWebHook env ''issue_comment'' body = Inr (IssueComment ice)"
      "GetProject env (RepoFullName ice) = Inr proj" "resolveSecret s proj \<noteq> []"
      "XHubSignature c \<noteq> SHA1HMAC env (resolveSecret s proj) body"
  proof -
    have "Handle env s c =
          (Returned (), [StoreGetProject (RepoFullName ice), Respond 403 ''malformed signature''])"
      using h handleIssueComment_reaches_check [OF h(2-5)] by (simp add: Handle_def)
    moreover have "\<not> signatureValidated env s c"
      using h by (simp add: signatureValidated_def validateSignature_iff)
    ultimately show ?thesis by simp
  qed
  show ?thesis using unvalidated_effects [of env s c] b by blast
qed

theorem signature_gate_witness:
  "\<not> signatureValidated (sampleEnv (sampleComment ''created'' ''OWNER'') 200) (sampleHook 42 [''*''])
      (sampleRequest ''sha1=forged'')
   \<and> Handle (sampleEnv (sampleComment ''created'' ''OWNER'') 200) (sampleHook 42 [''*''])
      (sampleRequest ''sha1=forged'') =
     (Returned (), [StoreGetProject ''octo/repo'', Respond 403 ''malformed signature''])
   \<and> filter is_build (snd (Handle (sampleEnv (sampleComment ''created'' ''OWNER'') 200)
        (sampleHook 42 [''*'']) (sampleRequest ''sha1=forged''))) = []
   \<and> filter is_remote_call (snd (Handle (sampleEnv (sampleComment ''created'' ''OWNER'') 200)
        (sampleHook 42 [''*'']) (sampleRequest ''sha1=forged''))) = []"
  using signature_gate
    [of "sampleEnv (sampleComment ''created'' ''OWNER'') 200" "sampleHook 42 [''*'']"
        "sampleRequest ''sha1=forged''" "''{}''" "sampleComment ''created'' ''OWNER''" sampleProject]
  by simp

text \<open>
  The claim as stated fails: a delivery with a forged signature causes one store
  operation, the project lookup; and a forged \<open>ping\<close> delivery is answered 200, since
  only comment deliveries are checked at all.
\<close>

theorem signature_mismatch_counterexample:
  "validateSignature (SHA1HMAC (sampleEnv (sampleComment ''created'' ''OWNER'') 200))
      (XHubSignature (sampleRequest ''sha1=forged'')) ''s3cret'' ''{}'' = Some SignatureCheckFailed
   \<and> filter is_store_op
       (snd (Handle (sampleEnv (sampleComment ''created'' ''OWNER'') 200) (sampleHook 42 [''*''])
          (sampleRequest ''sha1=forged''))) = [StoreGetProject ''octo/repo'']
   \<and> Handle (sampleEnv (sampleComment ''created'' ''OWNER'') 200) (sampleHook 42 [''*''])
        ((sampleRequest ''sha1=forged'')\<lparr>XGitHubEvent := ''ping''\<rparr>) =
       (Returned (), [Respond 200 ''OK''])"
  by (simp add: validateSignature_iff Handle_def handleIssueComment_def Let_def
      sampleRequest_def sampleEnv_def sampleComment_def sampleProject_def sampleHook_def
      resolveSecret_def)

subsection \<open>Comment events that are not enriched\<close>

text \<open>
  Claim C7. For every comment delivery with a valid signature and action
  \<open>created\<close> or \<open>edited\<close> whose author association is not allowed, or whose issue
  has no pull-request links, the handler makes no remote call and goes on to
  emission: the build for \<open>issue_comment\<close> and the build for
  \<open>issue_comment:action\<close> are submitted to the filter, each with the default ref
  \<open>refs/heads/master\<close>, no commit and an empty payload (so no token), and the
  handler answers 200.
\<close>

theorem comment_without_enrichment:
  assumes "XGitHubEvent c = ''issue_comment''"
      and "Body c = Inr body"
      and "ParseWebHook env ''issue_comment'' body = Inr (IssueComment ice)"
      and "GetProject env (RepoFullName ice) = Inr proj"
      and "resolveSecret s proj \<noteq> []"
      and "XHubSignature c = SHA1HMAC env (resolveSecret s proj) body"
      and "Action ice = ''created'' \<or> Action ice = ''edited''"
      and "\<not> isAllowedAuthor s (AuthorAssociation ice) \<or> \<not> PullRequestLinks ice"
  shows "Handle env s c =
           (Returned (),
            StoreGetProject (RepoFullName ice)
            # snd (build env s ''issue_comment'' defaultRevision [] proj)
            @ snd (build env s (''issue_comment:'' @ Action ice) defaultRevision [] proj)
            @ [Respond 200 ''Complete''])
       \<and> filter is_remote_call (snd (Handle env s c)) = []"
proof -
  have ne: "Action ice \<noteq> []" using assms(7) by auto
  have plain: "\<not> ((Action ice = ''created'' \<or> Action ice = ''edited'') \<and> PullRequestLinks ice
             \<and> isAllowedAuthor s (AuthorAssociation ice))"
    using assms(8) by blast
  have "Handle env s c =
           (Returned (),
            StoreGetProject (RepoFullName ice)
            # snd (build env s ''issue_comment'' defaultRevision [] proj)
            @ snd (build env s (''issue_comment:'' @ Action ice) defaultRevision [] proj)
            @ [Respond 200 ''Complete''])"
    using assms(1,6) ne handleIssueComment_reaches_check [OF assms(2-5)]
      afterSignature_plain [OF plain, of env "''issue_comment''" proj body]
    by (simp add: Handle_def)
  then show ?thesis by (simp add: build_no_remote)
qed

theorem comment_without_enrichment_witness:
  "\<not> isAllowedAuthor (sampleHook 42 [''*'']) ''NONE''
   \<and> Handle (sampleEnv (sampleComment ''created'' ''NONE'') 200) (sampleHook 42 [''*''])
        (sampleRequest ''sha1=s3cret{}'') =
       (Returned (),
        [StoreGetProject ''octo/repo'',
         StoreCreateBuild (sampleBuild ''issue_comment'' []),
         StoreCreateBuild (sampleBuild ''issue_comment:created'' []),
         Respond 200 ''Complete''])"
  using comment_without_enrichment
      [of "sampleRequest ''sha1=s3cret{}''" "''{}''" "sampleEnv (sampleComment ''created'' ''NONE'') 200"
          "sampleComment ''created'' ''NONE''" sampleProject "sampleHook 42 [''*'']"]
  by (simp add: build_def sampleBuild_def Let_def)

subsection \<open>Enrichment and the builds\<close>

lemma sample_env_remote [simp]:
  "JWT (sampleEnv ice n) aid k = Inr (''jwt.'' @ aid)"
  "Itoa (sampleEnv ice n) i = (if i = 5 then ''5'' else ''42'')"
  "NewEnterpriseClient (sampleEnv ice n) b u = None"
  "CreateInstallationToken (sampleEnv ice n) tok cfg inst = Inr (''v1.token'', 3600)"
  "PullRequestsGet (sampleEnv ice n) tok cfg owner repo num =
     Inr (\<lparr>HeadSHA = ''b643d461'', Number = num\<rparr>, n)"
  "UnmarshalBody (sampleEnv ice n) body = None"
  "MarshalWhPayload (sampleEnv ice n) p = Inr (''{token:'' @ whToken p @ ''}'')"
  by (simp_all add: sampleEnv_def)

lemma Split_octo_repo: "strings_Split ''octo/repo'' (CHR ''/'') = [''octo'', ''repo'']"
  by (simp add: strings_Split.simps)

lemma installationToken_no_build:
  "filter is_build (snd (installationToken env k a i g)) = []"
  by (simp add: installationToken_def Let_def split: sum.split option.split)

lemma getPRFromIssueComment_no_build:
  "filter is_build (snd (getPRFromIssueComment env tok ice proj)) = []"
  by (simp add: getPRFromIssueComment_def Let_def split: sum.split option.split prod.split)

lemma handleIssueCommentEvent_no_build:
  "filter is_build (snd (handleIssueCommentEvent env s ice revn proj body)) = []"
proof -
  obtain r es where it: "installationToken env (key s) (AppID (opts s)) (InstallationID ice) (Github proj) = (r, es)"
    by (cases "installationToken env (key s) (AppID (opts s)) (InstallationID ice) (Github proj)")
  have a: "filter is_build es = []"
    using installationToken_no_build [of env "key s" "AppID (opts s)" "InstallationID ice" "Github proj"] it
    by simp
  have b: "filter is_build (snd (getPRFromIssueComment env tok ice proj)) = []" for tok
    by (rule getPRFromIssueComment_no_build)
  show ?thesis
  proof (cases r)
    case (Inl err)
    then show ?thesis using it a by (simp add: handleIssueCommentEvent_def Let_def)
  next
    case (Inr p)
    obtain tok timeout where p: "p = (tok, timeout)" by (cases p)
    obtain q es' where g: "getPRFromIssueComment env tok ice proj = (q, es')"
      by (cases "getPRFromIssueComment env tok ice proj")
    have "filter is_build es' = []" using b [of tok] g by simp
    then show ?thesis using it a Inr p g
      by (simp add: handleIssueCommentEvent_def Let_def
          split: option.split sum.split prod.split)
  qed
qed

text \<open>
  In every run that returns after a valid signature, what precedes the builds creates
  no build, and the builds are the ones of the raw event type and, when the action is
  not empty, of \<open>eventType:action\<close>, each submitted to the filter on its own.
\<close>

lemma afterSignature_attempts:
  assumes "afterSignature env s t ice proj body = (Returned (), es)"
  shows "\<exists>pre revn payload.
           es = pre @ snd (build env s t revn payload proj)
                @ (if Action ice \<noteq> [] then snd (build env s (t @ '':'' @ Action ice) revn payload proj)
                   else [])
                @ [Respond 200 ''Complete'']
           \<and> filter is_build pre = []"
proof -
  define enriched where "enriched =
            (if Action ice = ''created'' \<or> Action ice = ''edited'' then
               (if PullRequestLinks ice then
                  (if \<not> isAllowedAuthor s (AuthorAssociation ice)
                   then (Returned (\<lparr>Commit = [], Ref = []\<rparr>, []), [])
                   else handleIssueCommentEvent env s ice \<lparr>Commit = [], Ref = []\<rparr> proj body)
                else (Returned (\<lparr>Commit = [], Ref = []\<rparr>, []), []))
             else (Returned (\<lparr>Commit = [], Ref = []\<rparr>, []), []))"
  have nb: "filter is_build (snd enriched) = []"
    by (simp add: enriched_def handleIssueCommentEvent_no_build)
  have unfold: "afterSignature env s t ice proj body =
      (case enriched of
           (Panicked, es) \<Rightarrow> (Panicked, es)
         | (Returned (rev1, payload), es) \<Rightarrow>
             (let revn = (if Ref rev1 = [] then rev1\<lparr>Ref := ''refs/heads/master''\<rparr> else rev1);
                  b1 = snd (build env s t revn payload proj);
                  b2 = (if Action ice \<noteq> []
                        then snd (build env s (t @ '':'' @ Action ice) revn payload proj)
                        else [])
              in (Returned (), es @ b1 @ b2 @ [Respond 200 ''Complete''])))"
    by (simp add: afterSignature_def enriched_def Let_def)
  obtain r pre where e: "enriched = (r, pre)" by (cases enriched)
  show ?thesis
  proof (cases r)
    case Panicked
    then show ?thesis using assms unfold e by simp
  next
    case (Returned p)
    obtain rev1 payload where p: "p = (rev1, payload)" by (cases p)
    let ?revn = "if Ref rev1 = [] then rev1\<lparr>Ref := ''refs/heads/master''\<rparr> else rev1"
    have "es = pre @ snd (build env s t ?revn payload proj)
                @ (if Action ice \<noteq> [] then snd (build env s (t @ '':'' @ Action ice) ?revn payload proj)
                   else [])
                @ [Respond 200 ''Complete'']"
      using assms unfold e Returned p by (simp add: Let_def)
    moreover have "filter is_build pre = []" using nb e by simp
    ultimately show ?thesis by blast
  qed
qed

lemma afterSignature_panic_no_build:
  assumes "afterSignature env s t ice proj body = (Panicked, es)"
  shows "filter is_build es = []"
proof -
  have "handleIssueCommentEvent env s ice revn proj body = (r, es') \<Longrightarrow> filter is_build es' = []"
    for revn r es'
    using handleIssueCommentEvent_no_build [of env s ice revn proj body] by simp
  then show ?thesis using assms
    by (auto simp: afterSignature_def Let_def split: if_splits prod.splits result.splits)
qed

text \<open>
  When the authentication step of the enrichment fails, the handler writes the 403
  response and then goes on: both builds are submitted, with the default revision and
  the raw body as payload, and the 200 response is written as well.
\<close>

lemma afterSignature_auth_failure:
  assumes "Action ice = ''created'' \<or> Action ice = ''edited''"
      and "PullRequestLinks ice"
      and "isAllowedAuthor s (AuthorAssociation ice)"
      and "AppID (opts s) = 0 \<or> InstallationID ice = 0
           \<or> (\<exists>err es. installationToken env (key s) (AppID (opts s)) (InstallationID ice) (Github proj) = (Inl err, es))"
  shows "\<exists>es. afterSignature env s t ice proj body =
     (Returned (),
      es @ [Respond 403 ''Auth Failed'']
      @ snd (build env s t defaultRevision body proj)
      @ snd (build env s (t @ '':'' @ Action ice) defaultRevision body proj)
      @ [Respond 200 ''Complete''])
     \<and> filter is_build es = [] \<and> filter is_response es = []"
proof -
  have ne: "Action ice \<noteq> []" using assms(1) by auto
  have it: "filter is_build (snd (installationToken env k a i g)) = [] \<and> filter is_response (snd (installationToken env k a i g)) = []" for k a i g
    by (simp add: installationToken_def Let_def split: sum.split option.split)
  show ?thesis
  proof (cases "AppID (opts s) = 0 \<or> InstallationID ice = 0")
    case True
    then have "afterSignature env s t ice proj body =
       (Returned (),
        [] @ [Respond 403 ''Auth Failed'']
        @ snd (build env s t defaultRevision body proj)
        @ snd (build env s (t @ '':'' @ Action ice) defaultRevision body proj)
        @ [Respond 200 ''Complete''])"
      using assms(1-3) ne
      by (auto simp: afterSignature_def handleIssueCommentEvent_def Let_def defaultRevision_def)
    then show ?thesis by (intro exI [of _ "[]"]) simp
  next
    case False
    then obtain err es where tk: "installationToken env (key s) (AppID (opts s)) (InstallationID ice) (Github proj) = (Inl err, es)"
      using assms(4) by blast
    have "afterSignature env s t ice proj body =
       (Returned (),
        es @ [Respond 403 ''Auth Failed'']
        @ snd (build env s t defaultRevision body proj)
        @ snd (build env s (t @ '':'' @ Action ice) defaultRevision body proj)
        @ [Respond 200 ''Complete''])"
      using assms(1-3) ne False tk
      by (auto simp: afterSignature_def handleIssueCommentEvent_def Let_def defaultRevision_def)
    moreover have "filter is_build es = [] \<and> filter is_response es = []"
      using it [of "key s" "AppID (opts s)" "InstallationID ice" "Github proj"] tk by simp
    ultimately show ?thesis by blast
  qed
qed

text \<open>
  Claim C2. When the authentication step of the enrichment fails (app id or
  installation id zero, or the token exchange fails), the request is to be reported as
  an authentication failure and no build is to be created. Run on a delivery of an
  allowed author with app id 0, and on one whose token exchange is refused, the handler
  writes the 403 response, then creates both builds and writes the 200 response.
\<close>

theorem auth_failure_still_builds:
  "Handle (sampleEnv (sampleComment ''created'' ''OWNER'') 200) (sampleHook 0 [''*''])
      (sampleRequest ''sha1=s3cret{}'') =
     (Returned (),
      [StoreGetProject ''octo/repo'',
       Respond 403 ''Auth Failed'',
       StoreCreateBuild (sampleBuild ''issue_comment'' ''{}''),
       StoreCreateBuild (sampleBuild ''issue_comment:created'' ''{}''),
       Respond 200 ''Complete''])
   \<and> Handle ((sampleEnv (sampleComment ''edited'' ''MEMBER'') 200)
                \<lparr>CreateInstallationToken := \<lambda>tok cfg inst. Inl (Err ''401 Unauthorized'')\<rparr>)
        (sampleHook 42 [''*'']) (sampleRequest ''sha1=s3cret{}'') =
     (Returned (),
      [StoreGetProject ''octo/repo'',
       RemoteCreateInstallationToken 7,
       Respond 403 ''Auth Failed'',
       StoreCreateBuild (sampleBuild ''issue_comment'' ''{}''),
       StoreCreateBuild (sampleBuild ''issue_comment:edited'' ''{}''),
       Respond 200 ''Complete''])"
  by (simp add: Handle_def
      handleIssueComment_reaches_check [where proj = sampleProject and body = "''{}''"
        and ice = "sampleComment ''created'' ''OWNER''"]
      handleIssueComment_reaches_check [where proj = sampleProject and body = "''{}''"
        and ice = "sampleComment ''edited'' ''MEMBER''"]
      afterSignature_def handleIssueCommentEvent_def Let_def build_def sampleBuild_def
      defaultRevision_def installationToken_def GhClient_def)

text \<open>The same delivery with a working token exchange and pull-request lookup.\<close>

lemma enriched_comment_builds:
  "Handle (sampleEnv (sampleComment ''created'' ''OWNER'') 200) (sampleHook 42 [''*''])
      (sampleRequest ''sha1=s3cret{}'') =
     (Returned (),
      [StoreGetProject ''octo/repo'',
       RemoteCreateInstallationToken 7,
       RemotePullRequestsGet ''octo'' ''repo'' 5,
       StoreCreateBuild ((sampleBuild ''issue_comment'' ''{token:v1.token}'')
          \<lparr>Revision := \<lparr>Commit = ''b643d461'', Ref = ''refs/pull/5/head''\<rparr>\<rparr>),
       StoreCreateBuild ((sampleBuild ''issue_comment:created'' ''{token:v1.token}'')
          \<lparr>Revision := \<lparr>Commit = ''b643d461'', Ref = ''refs/pull/5/head''\<rparr>\<rparr>),
       Respond 200 ''Complete''])"
  by (simp add: Handle_def handleIssueComment_reaches_check [where proj = sampleProject and body = "''{}''"
        and ice = "sampleComment ''created'' ''OWNER''"]
      afterSignature_def handleIssueCommentEvent_def Let_def build_def sampleBuild_def defaultRevision_def
      installationToken_def GhClient_def getPRFromIssueComment_def InstallationTokenClient_def
      Split_octo_repo)

text \<open>
  Claim C5. Every delivery that passes signature validation is to lead to the build
  attempt for the event type and, with an action, to the one for
  \<open>eventType:action\<close>. Run on a valid delivery whose pull-request lookup is answered
  with status 204 and no error, \<open>getPRFromIssueComment\<close> returns a nil pull request
  with a nil error, the handler panics on it, and no build is attempted.
\<close>

theorem crash_skips_builds:
  "Handle (sampleEnv (sampleComment ''created'' ''OWNER'') 204) (sampleHook 42 [''*''])
      (sampleRequest ''sha1=s3cret{}'') =
     (Panicked,
      [StoreGetProject ''octo/repo'',
       RemoteCreateInstallationToken 7,
       RemotePullRequestsGet ''octo'' ''repo'' 5])"
  by (simp add: Handle_def handleIssueComment_reaches_check [where proj = sampleProject and body = "''{}''"
        and ice = "sampleComment ''created'' ''OWNER''"]
      afterSignature_def handleIssueCommentEvent_def Let_def build_def sampleBuild_def defaultRevision_def
      installationToken_def GhClient_def getPRFromIssueComment_def InstallationTokenClient_def
      Split_octo_repo)

section \<open>Properties of the custom resource handler\<close>

lemma splitRepo_panics_iff: "splitRepo g = Panicked \<longleftrightarrow> CHR ''/'' \<notin> set g"
proof
  assume p: "splitRepo g = Panicked"
  show "CHR ''/'' \<notin> set g"
  proof
    assume "CHR ''/'' \<in> set g"
    then have "2 \<le> length (strings_Split g (CHR ''/''))" by (simp add: Split_length_ge2)
    then show False using p
      by (auto simp: splitRepo_def split: list.splits)
  qed
next
  assume "CHR ''/'' \<notin> set g"
  then show "splitRepo g = Panicked"
    by (simp add: splitRepo_def Split_no_sep)
qed

lemma splitRepo_first_two:
  assumes "CHR ''/'' \<notin> set owner" and "CHR ''/'' \<notin> set repo"
  shows "splitRepo (owner @ ''/'' @ repo) = Returned (owner, repo)"
  using Split_at_sep [OF assms(1), of repo] Split_no_sep [OF assms(2)]
  by (simp add: splitRepo_def)

lemma emitAndPack_state:
  "emitAndPack env h ss ss obj act payload proj = (r, bs, ss') \<Longrightarrow> ss' = ss"
  by (auto simp: emitAndPack_def Let_def split: option.splits prod.splits)

lemma afterLookup_state:
  "afterLookup env h ss ss obj instID payload proj = (r, es, ss') \<Longrightarrow> ss' = ss"
  by (auto simp: afterLookup_def Let_def split: option.splits prod.splits sum.splits
      dest: emitAndPack_state)

lemma HandleState_state_unchanged: "snd (snd (HandleState env h ss)) = ss"
  by (auto simp: HandleState_def Let_def split: option.splits result.splits sum.splits prod.splits
      dest: afterLookup_state)

lemma HandleState_panics_iff:
  assumes "Unpack env ss = None"
  shows "fst (HandleState env h ss) = Panicked \<longleftrightarrow>
           CHR ''/'' \<notin> set (annotation (Object ss) ''cd.brigade.sh/git-repo'')"
proof -
  let ?g = "annotation (Object ss) ''cd.brigade.sh/git-repo''"
  show ?thesis
  proof (cases "splitRepo ?g")
    case Panicked
    then show ?thesis using assms splitRepo_panics_iff [of ?g]
      by (simp add: HandleState_def Let_def)
  next
    case (Returned p)
    then have "splitRepo ?g \<noteq> Panicked" by simp
    then have "CHR ''/'' \<in> set ?g" using splitRepo_panics_iff [of ?g] by blast
    moreover have "fst (HandleState env h ss) \<noteq> Panicked"
      using assms Returned
      by (simp add: HandleState_def Let_def
          split: option.split sum.split prod.split)
    ultimately show ?thesis by simp
  qed
qed

text \<open>
  Claim C10. When the git-repo annotation of the snapshot contains a \<open>/\<close>, the split has
  at least two segments, so positions 0 and 1 exist and \<open>HandleState\<close> does not panic.
  The condition is needed: for every snapshot that unpacks and whose annotation has no
  \<open>/\<close>, \<open>HandleState\<close> panics.
\<close>

theorem HandleState_split_in_bounds:
  assumes "CHR ''/'' \<in> set (annotation (Object ss) ''cd.brigade.sh/git-repo'')"
  shows "2 \<le> length (strings_Split (annotation (Object ss) ''cd.brigade.sh/git-repo'') (CHR ''/''))
       \<and> splitRepo (annotation (Object ss) ''cd.brigade.sh/git-repo'') \<noteq> Panicked
       \<and> fst (HandleState env h ss) \<noteq> Panicked
       \<and> (\<forall>ss'. Unpack env ss' = None \<and>
                  CHR ''/'' \<notin> set (annotation (Object ss') ''cd.brigade.sh/git-repo'')
              \<longrightarrow> fst (HandleState env h ss') = Panicked)"
proof -
  have a: "fst (HandleState env h ss) \<noteq> Panicked"
  proof (cases "Unpack env ss")
    case None
    then show ?thesis using assms HandleState_panics_iff [OF None, of h] by simp
  next
    case (Some e)
    then show ?thesis by (simp add: HandleState_def)
  qed
  show ?thesis
    using assms a HandleState_panics_iff [of env _ h]
    by (simp add: Split_length_ge2 splitRepo_panics_iff)
qed

text \<open>Facts about the sample handler and snapshots.\<close>

lemma sample_resource_env [simp]:
  "GetProject resourceEnv name =
     (if name = ''octo/repo'' \<or> name = ''deploys'' then Inr sampleProject
      else Inl (Err ''project not found''))"
  "CreateBuild resourceEnv b = None"
  "Atoi resourceEnv str =
     (if str = ''1247339'' then Inr 1247339 else Inl (Err ''invalid syntax''))"
  "ToLower resourceEnv ''ReleaseSet'' = ''releaseset''"
  "MarshalCrPayload resourceEnv p = Inr (''{type:'' @ pType p @ '',token:'' @ pToken p @ ''}'')"
  "MarshalObject resourceEnv ob = None"
  "Unpack resourceEnv st = None"
  "Pack resourceEnv st = None"
  by (simp_all add: resourceEnv_def sampleEnv_def)

lemma sample_handler [simp]:
  "brigadeProject (sampleHandler p) = p"
  "eventTypeActionApply (sampleHandler p) = ''releaseset:apply''"
  "eventTypeActionDestroy (sampleHandler p) = ''releaseset:destroy''"
  "eventTypeActionPlan (sampleHandler p) = ''releaseset:plan''"
  "defaultBranch (sampleHandler p) = ''master''"
  "appID (sampleHandler p) = 0"
  by (simp_all add: sampleHandler_def newHandler_def sampleMapping_def Let_def)

lemma sample_state [simp]:
  "Kind (Object (sampleState anns del ph)) = ''ReleaseSet''"
  "DeletionTimestamp (Object (sampleState anns del ph)) = del"
  "Phase (Object (sampleState anns del ph)) = ph"
  "annotation (Object (sampleState anns del ph)) k = (case map_of anns k of None \<Rightarrow> [] | Some v \<Rightarrow> v)"
  by (simp_all add: sampleState_def annotation_def)

lemma splitRepo_demo [simp]: "splitRepo ''mumoshu/demo'' = Returned (''mumoshu'', ''demo'')"
  using splitRepo_first_two [of "''mumoshu''" "''demo''"] by simp

lemma HandleState_sample:
  assumes "map_of anns ''cd.brigade.sh/git-repo'' = Some ''mumoshu/demo''"
      and "map_of anns ''cd.brigade.sh/github-app-inst-id'' = None"
      and "map_of anns ''cd.brigade.sh/git-commit'' = None"
      and "map_of anns ''cd.brigade.sh/git-branch'' = None"
  shows "HandleState resourceEnv (sampleHandler ''deploys'') (sampleState anns del ph) =
     (Returned None,
      [StoreGetProject ''deploys'',
       StoreCreateBuild (sampleResourceBuild
         (eventTypeAction (sampleHandler ''deploys'') (Object (sampleState anns del ph))
            (annotation (Object (sampleState anns del ph)) ''cd.brigade.sh/approved'')
            (annotation (Object (sampleState anns del ph)) ''cd.brigade.sh/dry-run'')))],
      sampleState anns del ph)"
  using assms
  by (simp add: HandleState_def afterLookup_def emitAndPack_def Handler_build_def attachToken_def
      readInstID_def fillPayload_def Let_def sampleResourceBuild_def)

theorem HandleState_split_in_bounds_witness:
  "CHR ''/'' \<in> set (annotation (Object (sampleState [(''cd.brigade.sh/git-repo'', ''mumoshu/demo'')] None ''pending''))
                     ''cd.brigade.sh/git-repo'')
   \<and> fst (HandleState resourceEnv (sampleHandler ''deploys'')
        (sampleState [(''cd.brigade.sh/git-repo'', ''mumoshu/demo'')] None ''pending'')) \<noteq> Panicked
   \<and> fst (HandleState resourceEnv (sampleHandler ''deploys'') (sampleState [] None ''pending'')) = Panicked"
proof -
  have "Unpack resourceEnv (sampleState [] None ''pending'') = None \<and>
        CHR ''/'' \<notin> set (annotation (Object (sampleState [] None ''pending'')) ''cd.brigade.sh/git-repo'')"
    by simp
  then show ?thesis
    using HandleState_split_in_bounds
      [of "sampleState [(''cd.brigade.sh/git-repo'', ''mumoshu/demo'')] None ''pending''"
          resourceEnv "sampleHandler ''deploys''"]
    by simp
qed

lemma Handler_build_effects:
  "Handler_build env h act payload proj = (None, bs) \<Longrightarrow>
     \<exists>b. bs = [StoreCreateBuild b] \<and> Type b = act \<and> Provider b = ''brigade-cd''
          \<and> ProjectID b = ID proj \<and> CreateBuild env b = None"
  by (auto simp: Handler_build_def Let_def split: sum.splits)

lemma emitAndPack_success:
  "emitAndPack env h s ss obj act payload proj = (None, bs, ss') \<Longrightarrow>
     \<exists>b. bs = [StoreCreateBuild b] \<and> Type b = act"
  by (auto simp: emitAndPack_def Let_def split: option.splits prod.splits
      dest: Handler_build_effects)

lemma attachToken_no_build: "filter is_build (snd (attachToken env h proj instID payload)) = []"
  using installationToken_no_build [of env "hkey h" "appID h" instID "Github proj"]
  by (cases "installationToken env (hkey h) (appID h) instID (Github proj)")
     (auto simp: attachToken_def split: sum.splits prod.splits)

lemma afterLookup_success:
  assumes "afterLookup env h s ss obj instID payload proj = (None, es, ss')"
  shows "\<exists>b. filter is_build es = [StoreCreateBuild b]
           \<and> Type b = eventTypeAction h obj (annotation obj ''cd.brigade.sh/approved'')
                         (annotation obj ''cd.brigade.sh/dry-run'')"
proof -
  obtain r ts where at: "attachToken env h proj instID payload = (r, ts)"
    by (cases "attachToken env h proj instID payload")
  have nb: "filter is_build ts = []"
    using attachToken_no_build [of env h proj instID payload] at by simp
  show ?thesis
    using assms at nb
    by (auto simp: afterLookup_def Let_def split: sum.splits option.splits prod.splits
        dest!: emitAndPack_success)
qed

lemma HandleState_success_one_build:
  assumes "HandleState env h ss = (Returned None, es, ss')"
  shows "\<exists>b. filter is_build es = [StoreCreateBuild b]
           \<and> Type b = eventTypeAction h (Object ss)
                         (annotation (Object ss) ''cd.brigade.sh/approved'')
                         (annotation (Object ss) ''cd.brigade.sh/dry-run'')"
  using assms
  by (auto simp: HandleState_def Let_def split: option.splits result.splits sum.splits prod.splits
      dest!: afterLookup_success)

text \<open>
  What the action decision computes: \<open>destroy\<close> with a deletion marker; otherwise
  \<open>apply\<close> whenever the approved annotation is absent or \<open>"true"\<close>, whatever the
  dry-run annotation says, and for \<open>"yes"\<close> when the dry-run annotation is absent,
  \<open>"no"\<close> or \<open>"false"\<close>; \<open>plan\<close> in all other cases.
\<close>

lemma eventTypeAction_cases:
  "eventTypeAction h obj approvedStr dryRunStr =
     (if DeletionTimestamp obj \<noteq> None then eventTypeActionDestroy h
      else if approvedStr \<in> {[], ''true''} then eventTypeActionApply h
      else if approvedStr = ''yes'' \<and> dryRunStr \<in> {[], ''no'', ''false''}
           then eventTypeActionApply h
      else eventTypeActionPlan h)"
  by (simp add: eventTypeAction_def)

lemma eventTypeAction_newHandler:
  "eventTypeAction (newHandler env k ckey aid) obj a d
     \<in> {ToLower env (MappingKind k) @ '':apply'', ToLower env (MappingKind k) @ '':plan'',
        ToLower env (MappingKind k) @ '':destroy''}"
  by (simp add: eventTypeAction_def newHandler_def Let_def)

text \<open>
  Claim C3. Without a deletion marker, the action is to be \<open>apply\<close> exactly when the
  approved annotation is true and the dry-run annotation is false, and \<open>plan\<close>
  otherwise; in particular approved absent or \<open>"true"\<close> with dry-run \<open>"true"\<close> is to
  give \<open>plan\<close>. Run on such snapshots (approved absent, and approved \<open>"true"\<close>, each
  with dry-run \<open>"true"\<close>), \<open>HandleState\<close> creates a build of type
  \<open>releaseset:apply\<close>.
\<close>

theorem dry_run_true_yields_apply:
  "HandleState resourceEnv (sampleHandler ''deploys'')
     (sampleState [(''cd.brigade.sh/git-repo'', ''mumoshu/demo''),
                   (''cd.brigade.sh/dry-run'', ''true'')] None ''pending'') =
     (Returned None,
      [StoreGetProject ''deploys'', StoreCreateBuild (sampleResourceBuild ''releaseset:apply'')],
      sampleState [(''cd.brigade.sh/git-repo'', ''mumoshu/demo''),
                   (''cd.brigade.sh/dry-run'', ''true'')] None ''pending'')
   \<and> HandleState resourceEnv (sampleHandler ''deploys'')
     (sampleState [(''cd.brigade.sh/git-repo'', ''mumoshu/demo''),
                   (''cd.brigade.sh/approved'', ''true''),
                   (''cd.brigade.sh/dry-run'', ''true'')] None ''pending'') =
     (Returned None,
      [StoreGetProject ''deploys'', StoreCreateBuild (sampleResourceBuild ''releaseset:apply'')],
      sampleState [(''cd.brigade.sh/git-repo'', ''mumoshu/demo''),
                   (''cd.brigade.sh/approved'', ''true''),
                   (''cd.brigade.sh/dry-run'', ''true'')] None ''pending'')"
  by (simp add: HandleState_sample eventTypeAction_def)

text \<open>
  Claim C8. A successful reconciliation is to create exactly one build, of the
  qualified action type, and to leave the status phase \<open>completed\<close>. Run on a snapshot
  with a deletion marker and phase \<open>pending\<close>, \<open>HandleState\<close> creates the one build of
  type \<open>releaseset:destroy\<close> and returns nil, and the phase of the state it leaves is
  still \<open>pending\<close>: the assignment went to the local copy of the object.
\<close>

theorem phase_not_written_back:
  "HandleState resourceEnv (sampleHandler ''deploys'')
     (sampleState [(''cd.brigade.sh/git-repo'', ''mumoshu/demo'')] (Some 1572739200) ''pending'') =
     (Returned None,
      [StoreGetProject ''deploys'', StoreCreateBuild (sampleResourceBuild ''releaseset:destroy'')],
      sampleState [(''cd.brigade.sh/git-repo'', ''mumoshu/demo'')] (Some 1572739200) ''pending'')
   \<and> Phase (Object (snd (snd (HandleState resourceEnv (sampleHandler ''deploys'')
        (sampleState [(''cd.brigade.sh/git-repo'', ''mumoshu/demo'')] (Some 1572739200) ''pending''))))) =
       ''pending''"
  by (simp add: HandleState_sample eventTypeAction_def)

text \<open>
  Claim C9. When the lookup of the target project fails, \<open>HandleState\<close> creates no
  build, leaves the state (and so the status phase) as it was, and does not return
  nil; when the lookup is reached (the state unpacks, the git-repo annotation splits,
  the installation id converts), it returns the error of the store and the lookup is
  the only thing it did.
\<close>

theorem HandleState_project_lookup_fails:
  assumes "GetProject env (brigadeProject h) = Inl err"
  shows "filter is_build (fst (snd (HandleState env h ss))) = []
       \<and> snd (snd (HandleState env h ss)) = ss
       \<and> fst (HandleState env h ss) \<noteq> Returned None
       \<and> (Unpack env ss = None
            \<and> CHR ''/'' \<in> set (annotation (Object ss) ''cd.brigade.sh/git-repo'')
            \<and> readInstID env (annotation (Object ss) ''cd.brigade.sh/github-app-inst-id'') = Inr instID
          \<longrightarrow> HandleState env h ss =
                (Returned (Some err), [StoreGetProject (brigadeProject h)], ss))"
proof -
  have a: "filter is_build (fst (snd (HandleState env h ss))) = []
           \<and> fst (HandleState env h ss) \<noteq> Returned None"
    using assms
    by (simp add: HandleState_def Let_def split: option.split result.split sum.split prod.split)
  have b: "HandleState env h ss = (Returned (Some err), [StoreGetProject (brigadeProject h)], ss)"
    if u: "Unpack env ss = None"
      and g: "CHR ''/'' \<in> set (annotation (Object ss) ''cd.brigade.sh/git-repo'')"
      and i: "readInstID env (annotation (Object ss) ''cd.brigade.sh/github-app-inst-id'') = Inr instID"
  proof -
    obtain p where "splitRepo (annotation (Object ss) ''cd.brigade.sh/git-repo'') = Returned p"
      using g splitRepo_panics_iff [of "annotation (Object ss) ''cd.brigade.sh/git-repo''"]
      by (cases "splitRepo (annotation (Object ss) ''cd.brigade.sh/git-repo'')") auto
    then show ?thesis using u i assms
      by (simp add: HandleState_def Let_def split: prod.split)
  qed
  show ?thesis using a b HandleState_state_unchanged [of env h ss] by blast
qed

theorem HandleState_project_lookup_fails_witness:
  "GetProject resourceEnv (brigadeProject (sampleHandler ''missing'')) = Inl (Err ''project not found'')
   \<and> HandleState resourceEnv (sampleHandler ''missing'')
       (sampleState [(''cd.brigade.sh/git-repo'', ''mumoshu/demo'')] None ''pending'') =
     (Returned (Some (Err ''project not found'')), [StoreGetProject ''missing''],
      sampleState [(''cd.brigade.sh/git-repo'', ''mumoshu/demo'')] None ''pending'')"
  using HandleState_project_lookup_fails
    [of resourceEnv "sampleHandler ''missing''" "Err ''project not found''"
        "sampleState [(''cd.brigade.sh/git-repo'', ''mumoshu/demo'')] None ''pending''" 0]
  by (simp add: readInstID_def)

end
